theory Spec2Isabelle
  imports Complex_Main "HOL-Library.Sublist" "HOL-Library.Option_ord" "HOL-Library.Product_Lexorder"
begin

section \<open>String primitives used by the views\<close>

text \<open>
  Strings are lists of characters; a character stands for a code point below 256.
  \<open>lower\<close> is the case folding behind the ORM's \<open>icontains\<close> lookup, restricted to
  the ASCII letters.
\<close>

definition lower_char :: "char \<Rightarrow> char" where
  "lower_char c =
     (let n = (of_char c :: nat) in if 65 \<le> n \<and> n \<le> 90 then char_of (n + 32) else c)"

definition lower :: "string \<Rightarrow> string" where
  "lower s = map lower_char s"

text \<open>
  \<open>hay__icontains = needle\<close>: the needle occurs in the hay as a contiguous run of
  characters, compared without regard to case.
\<close>

definition icontains :: "string \<Rightarrow> string \<Rightarrow> bool" where
  "icontains hay needle = sublist (lower needle) (lower hay)"

text \<open>The characters that \<open>str.strip()\<close> removes when called without an argument.\<close>

definition is_space :: "char \<Rightarrow> bool" where
  "is_space c =
     (let n = (of_char c :: nat)
      in (9 \<le> n \<and> n \<le> 13) \<or> (28 \<le> n \<and> n \<le> 32) \<or> n = 133 \<or> n = 160)"

definition strip :: "string \<Rightarrow> string" where
  "strip s = rev (dropWhile is_space (rev (dropWhile is_space s)))"

text \<open>\<open>s.split(',')\<close>: one piece more than there are commas, pieces may be empty.\<close>

fun split_comma :: "string \<Rightarrow> string list" where
  "split_comma [] = [[]]"
| "split_comma (c # cs) =
     (if c = CHR '','' then [] # split_comma cs
      else (case split_comma cs of
              [] \<Rightarrow> [[c]]
            | w # ws \<Rightarrow> (c # w) # ws))"

section \<open>Directory search (\<open>search\<close>, views.py lines 14 to 50)\<close>

type_synonym coordinate = "real \<times> real"

text \<open>
  A row of \<open>Profile\<close> joined with its \<open>User\<close>: the user's id and first name, and the
  profile's role, skills text and location (absent when unset).
\<close>

record profile =
  user_id :: nat
  first_name :: string
  role :: string
  skills :: string
  location :: "coordinate option"

text \<open>
  \<open>form.cleaned_data\<close> of a valid \<open>SearchForm\<close>. Text fields are empty when left
  blank; the location and its range are \<open>None\<close> when not given. Python tests each of
  them for truth, so an empty string and \<open>None\<close> both switch a stage off.
\<close>

record cleaned_data =
  cd_location :: "coordinate option"
  cd_skills :: string
  cd_name :: string
  cd_position :: string
  cd_location_range :: "real option"

text \<open>
  The part of the request that \<open>search\<close> reads: the query parameters and
  \<open>request.user.id\<close>, which is \<open>None\<close> for an anonymous visitor.
\<close>

record search_request =
  GET :: "(string \<times> string) list"
  request_user_id :: "nat option"

text \<open>
  The template context: either only the blank form, or the bound form with the
  \<open>searched\<close> flag and the \<open>search_results\<close>.
\<close>

datatype search_context =
  Unsearched
| Searched cleaned_data "profile list"

text \<open>\<open>.exclude(user__id=request.user.id)\<close> (line 36).\<close>

definition exclude_user :: "nat option \<Rightarrow> profile list \<Rightarrow> profile list" where
  "exclude_user uid users = filter (\<lambda>p. Some (user_id p) \<noteq> uid) users"

text \<open>The loop of lines 39 and 40: one \<open>filter(skills__icontains=tag)\<close> per tag.\<close>

fun filter_tags :: "string list \<Rightarrow> profile list \<Rightarrow> profile list" where
  "filter_tags [] users = users"
| "filter_tags (tag # tags) users =
     filter_tags tags (filter (\<lambda>p. icontains (skills p) tag) users)"

text \<open>Lines 37 to 40.\<close>

definition skills_stage :: "string \<Rightarrow> profile list \<Rightarrow> profile list" where
  "skills_stage sk users =
     (if sk \<noteq> [] then filter_tags (map strip (split_comma sk)) users else users)"

text \<open>Lines 41 and 42.\<close>

definition position_stage :: "string \<Rightarrow> profile list \<Rightarrow> profile list" where
  "position_stage pos users =
     (if pos \<noteq> [] then filter (\<lambda>p. role p = pos) users else users)"

text \<open>Lines 43 and 44.\<close>

definition name_stage :: "string \<Rightarrow> profile list \<Rightarrow> profile list" where
  "name_stage nm users =
     (if nm \<noteq> [] then filter (\<lambda>p. icontains (first_name p) nm) users else users)"

text \<open>
  The distance from an origin to a profile, when the profile has a location. The
  great-circle formula itself is a parameter \<open>great_circle\<close> of the development.
\<close>

definition distance_to ::
  "(coordinate \<Rightarrow> coordinate \<Rightarrow> real) \<Rightarrow> coordinate \<Rightarrow> profile \<Rightarrow> real option" where
  "distance_to great_circle origin p = map_option (great_circle origin) (location p)"

definition within_radius ::
  "(coordinate \<Rightarrow> coordinate \<Rightarrow> real) \<Rightarrow> coordinate \<Rightarrow> real \<Rightarrow> profile \<Rightarrow> bool" where
  "within_radius great_circle origin radius p =
     (case location p of None \<Rightarrow> False | Some l \<Rightarrow> great_circle origin l \<le> radius)"

definition sort_by_distance ::
  "(coordinate \<Rightarrow> coordinate \<Rightarrow> real) \<Rightarrow> coordinate \<Rightarrow> profile list \<Rightarrow> profile list" where
  "sort_by_distance great_circle origin users =
     sort_key (\<lambda>p. (distance_to great_circle origin p, user_id p)) users"

text \<open>
  Modelled from the spec: \<open>search_by_distance\<close> is a method of the profile manager in
  \<open>anthill.people.models\<close>, which is not among the sources. The spec (sections 3 and
  4.2) says: when origin and radius are both present, keep the records whose distance
  to the origin is at most the radius, a record without a location failing
  unconditionally; sort the survivors by ascending distance, ties by ascending
  identity; a field that is absent disables the stage and the snapshot order stays.
\<close>

definition search_by_distance ::
  "(coordinate \<Rightarrow> coordinate \<Rightarrow> real) \<Rightarrow> coordinate \<Rightarrow> real option \<Rightarrow> profile list
     \<Rightarrow> profile list" where
  "search_by_distance great_circle origin rng users =
     (case rng of
        None \<Rightarrow> users
      | Some radius \<Rightarrow> sort_by_distance great_circle origin (filter (within_radius great_circle origin radius) users))"

text \<open>Lines 45 and 46.\<close>

definition location_stage ::
  "(coordinate \<Rightarrow> coordinate \<Rightarrow> real) \<Rightarrow> coordinate option \<Rightarrow> real option \<Rightarrow> profile list
     \<Rightarrow> profile list" where
  "location_stage great_circle loc rng users =
     (case loc of
        None \<Rightarrow> users
      | Some origin \<Rightarrow> search_by_distance great_circle origin rng users)"

text \<open>Lines 36 to 46: the query set built from the cleaned form data.\<close>

definition search_users ::
  "(coordinate \<Rightarrow> coordinate \<Rightarrow> real) \<Rightarrow> nat option \<Rightarrow> cleaned_data \<Rightarrow> profile list
     \<Rightarrow> profile list" where
  "search_users great_circle uid cd profiles =
     location_stage great_circle (cd_location cd) (cd_location_range cd)
       (name_stage (cd_name cd)
         (position_stage (cd_position cd)
           (skills_stage (cd_skills cd)
             (exclude_user uid profiles))))"

text \<open>
  The view. \<open>SearchForm\<close> is declared in \<open>anthill.people.forms\<close>, outside the sources,
  so its validation is the parameter \<open>clean\<close>: \<open>None\<close> when the form is invalid, the
  cleaned data otherwise. Nothing is searched when the request has no query parameter
  or the form is invalid.
\<close>

definition search ::
  "((string \<times> string) list \<Rightarrow> cleaned_data option) \<Rightarrow> (coordinate \<Rightarrow> coordinate \<Rightarrow> real)
     \<Rightarrow> profile list \<Rightarrow> search_request \<Rightarrow> search_context" where
  "search clean great_circle profiles request =
     (if GET request \<noteq> [] then
        (case clean (GET request) of
           Some cd \<Rightarrow> Searched cd (search_users great_circle (request_user_id request) cd profiles)
         | None \<Rightarrow> Unsearched)
      else Unsearched)"

text \<open>
  The spec's own order of the stages (section 4.2, steps 2 to 5), for comparison with
  \<open>search_users\<close>: the requester is dropped, each remaining record is tested for role,
  then name, then skill tags, then distance, stopping at the first test that fails, and
  the survivors are sorted by distance when a distance filter was applied.
\<close>

definition spec_role_ok :: "cleaned_data \<Rightarrow> profile \<Rightarrow> bool" where
  "spec_role_ok cd p = (if cd_position cd = [] then True else role p = cd_position cd)"

definition spec_name_ok :: "cleaned_data \<Rightarrow> profile \<Rightarrow> bool" where
  "spec_name_ok cd p = (if cd_name cd = [] then True else icontains (first_name p) (cd_name cd))"

definition spec_skills_ok :: "cleaned_data \<Rightarrow> profile \<Rightarrow> bool" where
  "spec_skills_ok cd p =
     (if cd_skills cd = [] then True
      else list_all (\<lambda>tag. icontains (skills p) tag) (map strip (split_comma (cd_skills cd))))"

definition spec_distance_ok ::
  "(coordinate \<Rightarrow> coordinate \<Rightarrow> real) \<Rightarrow> cleaned_data \<Rightarrow> profile \<Rightarrow> bool" where
  "spec_distance_ok great_circle cd p =
     (case (cd_location cd, cd_location_range cd) of
        (Some origin, Some radius) \<Rightarrow> within_radius great_circle origin radius p
      | _ \<Rightarrow> True)"

definition spec_passes ::
  "(coordinate \<Rightarrow> coordinate \<Rightarrow> real) \<Rightarrow> cleaned_data \<Rightarrow> profile \<Rightarrow> bool" where
  "spec_passes great_circle cd p =
     (if spec_role_ok cd p then
        if spec_name_ok cd p then
          if spec_skills_ok cd p then spec_distance_ok great_circle cd p else False
        else False
      else False)"

definition spec_rank ::
  "(coordinate \<Rightarrow> coordinate \<Rightarrow> real) \<Rightarrow> cleaned_data \<Rightarrow> profile list \<Rightarrow> profile list" where
  "spec_rank great_circle cd users =
     (case (cd_location cd, cd_location_range cd) of
        (Some origin, Some radius) \<Rightarrow> sort_by_distance great_circle origin users
      | _ \<Rightarrow> users)"

definition search_spec_order ::
  "(coordinate \<Rightarrow> coordinate \<Rightarrow> real) \<Rightarrow> nat option \<Rightarrow> cleaned_data \<Rightarrow> profile list
     \<Rightarrow> profile list" where
  "search_spec_order great_circle uid cd profiles =
     spec_rank great_circle cd
       (filter (spec_passes great_circle cd) (exclude_user uid profiles))"

section \<open>Quota limiter\<close>

text \<open>
  Modelled from the spec: \<open>can_send_email\<close> and \<open>record_email_sent\<close> are methods of
  \<open>Profile\<close> in \<open>anthill.people.models\<close>, which is not among the sources. Section 4.3
  of the spec describes them as \<open>canSend\<close> and \<open>recordSend\<close> over a sequence of send
  instants per identity, pruned to a trailing window; section 5 adds \<open>tryRecordSend\<close>,
  both steps in one. Instants are whole seconds.
\<close>

datatype answer = Allowed | Throttled

record quota_config =
  windowDuration :: int
  maxSendsPerWindow :: nat

type_synonym quota_state = "nat \<Rightarrow> int list option"

text \<open>Modelled from the spec: a state is created lazily, so an unknown identity has no instants.\<close>

definition sendTimestamps :: "quota_state \<Rightarrow> nat \<Rightarrow> int list" where
  "sendTimestamps q i = (case q i of None \<Rightarrow> [] | Some ts \<Rightarrow> ts)"

text \<open>Modelled from the spec: drop the instants older than \<open>now - windowDuration\<close>.\<close>

definition prune :: "quota_config \<Rightarrow> int \<Rightarrow> int list \<Rightarrow> int list" where
  "prune cfg now ts = filter (\<lambda>t. now - windowDuration cfg \<le> t) ts"

text \<open>
  Modelled from the spec: \<open>canSend\<close> prunes, then answers \<open>Allowed\<close> when fewer than
  \<open>maxSendsPerWindow\<close> instants remain and \<open>Throttled\<close> otherwise.
\<close>

definition canSend :: "quota_config \<Rightarrow> quota_state \<Rightarrow> nat \<Rightarrow> int \<Rightarrow> answer \<times> quota_state" where
  "canSend cfg q i now =
     (let ts = prune cfg now (sendTimestamps q i)
      in (if length ts < maxSendsPerWindow cfg then Allowed else Throttled, q(i \<mapsto> ts)))"

text \<open>Modelled from the spec: \<open>recordSend\<close> prunes, then appends \<open>now\<close>.\<close>

definition recordSend :: "quota_config \<Rightarrow> quota_state \<Rightarrow> nat \<Rightarrow> int \<Rightarrow> quota_state" where
  "recordSend cfg q i now = q(i \<mapsto> prune cfg now (sendTimestamps q i) @ [now])"

text \<open>Modelled from the spec: the check and the record as one operation.\<close>

definition tryRecordSend :: "quota_config \<Rightarrow> quota_state \<Rightarrow> nat \<Rightarrow> int \<Rightarrow> answer \<times> quota_state" where
  "tryRecordSend cfg q i now =
     (case canSend cfg q i now of
        (Allowed, q') \<Rightarrow> (Allowed, recordSend cfg q' i now)
      | (Throttled, q') \<Rightarrow> (Throttled, q'))"

text \<open>A series of \<open>tryRecordSend\<close> calls by one identity, with the answers in order.\<close>

fun tryRecordSend_all :: "quota_config \<Rightarrow> quota_state \<Rightarrow> nat \<Rightarrow> int list \<Rightarrow> answer list" where
  "tryRecordSend_all cfg q i [] = []"
| "tryRecordSend_all cfg q i (now # rest) =
     (case tryRecordSend cfg q i now of (a, q') \<Rightarrow> a # tryRecordSend_all cfg q' i rest)"

text \<open>
  A history of calls on the limiter, each with the identity and the time of the call.
  \<open>recorded i\<close> is the sequence of instants that identity \<open>i\<close> recorded, in order.
\<close>

datatype quota_op = CanSend nat int | RecordSend nat int


fun recorded :: "nat \<Rightarrow> quota_op list \<Rightarrow> int list" where
  "recorded i [] = []"
| "recorded i (CanSend j t # ops) = recorded i ops"
| "recorded i (RecordSend j t # ops) = (if j = i then t # recorded i ops else recorded i ops)"

text \<open>
  The callers' discipline: every \<open>recordSend\<close> uses up the \<open>Allowed\<close> answer of the
  latest \<open>canSend\<close> of the same identity, and no answer is used twice. \<open>permit i\<close> says
  that identity \<open>i\<close> holds an unused \<open>Allowed\<close> answer.
\<close>

fun paired :: "quota_config \<Rightarrow> quota_state \<Rightarrow> (nat \<Rightarrow> bool) \<Rightarrow> quota_op list \<Rightarrow> bool" where
  "paired cfg q permit [] = True"
| "paired cfg q permit (CanSend i t # ops) =
     (case canSend cfg q i t of (a, q') \<Rightarrow> paired cfg q' (permit(i := (a = Allowed))) ops)"
| "paired cfg q permit (RecordSend i t # ops) =
     (if permit i then paired cfg (recordSend cfg q i t) (permit(i := False)) ops else False)"

text \<open>The number of instants of a sequence inside the window that ends at \<open>T\<close>.\<close>

definition in_window :: "quota_config \<Rightarrow> int \<Rightarrow> int list \<Rightarrow> nat" where
  "in_window cfg T ts = length (filter (\<lambda>t. T - windowDuration cfg \<le> t \<and> t \<le> T) ts)"

section \<open>Contacting a user (\<open>contact\<close>, views.py lines 131 to 172)\<close>

record user =
  u_id :: nat
  username :: string
  u_first_name :: string
  email :: string

datatype level = Warning | Success

text \<open>What \<open>to_user.email_user(subject, body, from_email)\<close> hands to the mail transport.\<close>

record mail =
  mail_to :: user
  mail_subject :: string
  mail_body :: string
  mail_from :: string

text \<open>One firing of the \<open>message_sent\<close> signal.\<close>

record sent_event =
  ev_sender :: user
  ev_subject :: string
  ev_body :: string
  ev_recipient :: user

text \<open>
  Everything \<open>contact\<close> can change: the quota state, the mails delivered, the signals
  fired and the flash messages queued for the requester.
\<close>

record world =
  quota :: quota_state
  outbox :: "mail list"
  events :: "sent_event list"
  flash :: "(level \<times> string) list"

text \<open>
  The request. \<open>request_user\<close> is \<open>None\<close> for a visitor who is not logged in. The three
  instants are the clock readings of the quota calls of lines 150, 157 and 167.
\<close>

record contact_request =
  request_user :: "user option"
  request_method :: string
  request_POST :: "(string \<times> string) list"
  now_warn :: int
  now_check :: int
  now_record :: int

datatype response =
  Http404
| RedirectLogin
| Redirect string "string list"
| Render string bool user

text \<open>\<open>to_user.first_name or to_user.username\<close> (line 166).\<close>

definition display_name :: "user \<Rightarrow> string" where
  "display_name u = (if u_first_name u \<noteq> [] then u_first_name u else username u)"

text \<open>
  The view. \<open>UserContactForm\<close> and the two mail templates are outside the sources:
  \<open>form\<close> validates the posted fields (\<open>None\<close> when invalid, the cleaned subject and
  body otherwise) and \<open>render\<close> is \<open>render_to_string\<close> applied to a template name and
  the data of lines 158 to 160. \<open>users\<close> is the table that \<open>get_object_or_404\<close> reads.
\<close>

definition contact ::
  "quota_config \<Rightarrow> ((string \<times> string) list \<Rightarrow> (string \<times> string) option)
     \<Rightarrow> (string \<Rightarrow> user \<Rightarrow> user \<Rightarrow> string \<Rightarrow> string \<Rightarrow> string)
     \<Rightarrow> user list \<Rightarrow> world \<Rightarrow> contact_request \<Rightarrow> string \<Rightarrow> world \<times> response" where
  "contact cfg form render users w request uname =
     (case request_user request of
        None \<Rightarrow> (w, RedirectLogin)
      | Some me \<Rightarrow>
          (case find (\<lambda>u. username u = uname) users of
             None \<Rightarrow> (w, Http404)
           | Some to_user \<Rightarrow>
               if email me = [] then
                 (w\<lparr>flash := flash w @
                      [(Warning, ''You must set a valid email address prior to emailing other users.'')]\<rparr>,
                  Redirect ''edit_profile'' [])
               else
                 (case canSend cfg (quota w) (u_id me) (now_warn request) of
                    (a1, q1) \<Rightarrow>
                      let w1 = w\<lparr>quota := q1,
                                 flash := (if a1 \<noteq> Allowed
                                   then flash w @ [(Warning, ''You have currently exceeded the message quota.  Please wait a few minutes before sending this message.'')]
                                   else flash w)\<rparr>
                      in if request_method request = ''GET'' then
                           (w1, Render ''people/contact.html'' False to_user)
                         else
                           (case form (request_POST request) of
                              None \<Rightarrow> (w1, Render ''people/contact.html'' True to_user)
                            | Some (subj, bod) \<Rightarrow>
                                (case canSend cfg (quota w1) (u_id me) (now_check request) of
                                   (a2, q2) \<Rightarrow>
                                     if a2 = Allowed then
                                       (let subject = render ''people/contact_email_subject.txt'' me to_user subj bod;
                                            body = render ''people/contact_email_body.txt'' me to_user subj bod
                                        in (w1\<lparr>quota := recordSend cfg q2 (u_id me) (now_record request),
                                               outbox := outbox w1 @
                                                 [\<lparr>mail_to = to_user, mail_subject = strip subject,
                                                   mail_body = body, mail_from = email me\<rparr>],
                                               events := events w1 @
                                                 [\<lparr>ev_sender = me, ev_subject = subject,
                                                   ev_body = body, ev_recipient = to_user\<rparr>],
                                               flash := flash w1 @
                                                 [(Success, ''Your email has been delivered to '' @ display_name to_user)]\<rparr>,
                                            Redirect ''user_profile'' [uname]))
                                     else (w1\<lparr>quota := q2\<rparr>, Render ''people/contact.html'' True to_user))))))"

section \<open>Notions used in the statements\<close>

text \<open>
  The ranking order of section 4.2: \<open>a\<close> may stand before \<open>b\<close> when both have a
  location and \<open>a\<close> is nearer to the origin, or as near with an identity that is not
  larger.
\<close>

definition ranked_before ::
  "(coordinate \<Rightarrow> coordinate \<Rightarrow> real) \<Rightarrow> coordinate \<Rightarrow> profile \<Rightarrow> profile \<Rightarrow> bool" where
  "ranked_before great_circle origin a b =
     (case (location a, location b) of
        (Some la, Some lb) \<Rightarrow>
          great_circle origin la < great_circle origin lb \<or>
          (great_circle origin la = great_circle origin lb \<and> user_id a \<le> user_id b)
      | _ \<Rightarrow> False)"


subsection \<open>A worked directory\<close>

text \<open>
  The scenario of the spec's section 8, with a fourth profile that has no location. In
  the examples the distance is measured on a flat grid, standing in for the great-circle
  formula.
\<close>

definition grid_distance :: "coordinate \<Rightarrow> coordinate \<Rightarrow> real" where
  "grid_distance a b = \<bar>fst a - fst b\<bar> + \<bar>snd a - snd b\<bar>"

definition profile_A :: profile where
  "profile_A = \<lparr>user_id = 1, first_name = ''Ada'', role = ''dev'', skills = ''go, rust'',
     location = Some (0, 0)\<rparr>"

definition profile_B :: profile where
  "profile_B = \<lparr>user_id = 2, first_name = ''Bea'', role = ''dev'', skills = ''python'',
     location = Some (0, 1)\<rparr>"

definition profile_C :: profile where
  "profile_C = \<lparr>user_id = 3, first_name = ''Cal'', role = ''design'', skills = ''go'',
     location = Some (10, 10)\<rparr>"

definition profile_D :: profile where
  "profile_D = \<lparr>user_id = 4, first_name = ''Dee'', role = ''ops'', skills = ''Python, MongoDB'',
     location = None\<rparr>"

definition blank_query :: cleaned_data where
  "blank_query = \<lparr>cd_location = None, cd_skills = [], cd_name = [], cd_position = [],
     cd_location_range = None\<rparr>"

definition request_by :: "nat \<Rightarrow> search_request" where
  "request_by uid = \<lparr>GET = [(''name'', [])], request_user_id = Some uid\<rparr>"

definition sender :: "string \<Rightarrow> user" where
  "sender addr = \<lparr>u_id = 1, username = ''ada'', u_first_name = ''Ada'', email = addr\<rparr>"

definition post_request :: "user \<Rightarrow> contact_request" where
  "post_request me = \<lparr>request_user = Some me, request_method = ''POST'',
     request_POST = [(''subject'', ''hi''), (''body'', ''hello'')],
     now_warn = 0, now_check = 0, now_record = 0\<rparr>"

section \<open>Properties\<close>

subsection \<open>The string primitives\<close>

text \<open>
  \<open>split_comma\<close> cuts at every comma and nowhere else: no piece holds a comma, there
  is one piece more than there are commas, and the pieces joined by commas give the
  string back.
\<close>

lemma split_comma_nonempty: "split_comma s \<noteq> []"
  by (induction s) (auto split: list.splits)

lemma split_comma_join:
  "concat (map (\<lambda>w. CHR '','' # w) (split_comma s)) = CHR '','' # s"
  by (induction s) (auto split: list.splits)

lemma split_comma_no_comma: "w \<in> set (split_comma s) \<Longrightarrow> CHR '','' \<notin> set w"
  by (induction s arbitrary: w) (auto split: list.splits if_splits)

lemma length_split_comma: "length (split_comma s) = Suc (count_list s (CHR '',''))"
  by (induction s) (auto split: list.splits)

text \<open>
  \<open>strip\<close> removes white space at both ends and nothing else.
\<close>

lemma strip_decompose:
  "\<exists>a b. s = a @ strip s @ b \<and> list_all is_space a \<and> list_all is_space b"
proof -
  let ?a = "takeWhile is_space s"
  let ?r = "dropWhile is_space s"
  let ?b = "rev (takeWhile is_space (rev ?r))"
  have "?r = strip s @ ?b"
    unfolding strip_def by (metis rev_append rev_rev_ident takeWhile_dropWhile_id)
  then have "s = ?a @ strip s @ ?b"
    by (metis takeWhile_dropWhile_id)
  moreover have "list_all is_space ?a"
    by (simp add: list_all_iff) (meson set_takeWhileD)
  moreover have "list_all is_space ?b"
    by (simp add: list_all_iff) (meson set_takeWhileD)
  ultimately show ?thesis by blast
qed

lemma strip_ends:
  assumes "strip s \<noteq> []"
  shows "\<not> is_space (hd (strip s)) \<and> \<not> is_space (last (strip s))"
proof -
  let ?r = "dropWhile is_space s"
  let ?t = "dropWhile is_space (rev ?r)"
  from assms have t: "?t \<noteq> []" by (simp add: strip_def)
  then have "\<not> is_space (hd ?t)" by (rule hd_dropWhile)
  with t have l: "\<not> is_space (last (strip s))"
    by (simp add: strip_def last_rev)
  from assms have r: "?r \<noteq> []" by (auto simp: strip_def simp del: dropWhile_eq_Nil_conv)
  then have h: "\<not> is_space (hd ?r)" by (rule hd_dropWhile)
  have "hd (strip s) = hd ?r"
  proof -
    obtain b where "?r = strip s @ b"
      unfolding strip_def by (metis rev_append rev_rev_ident takeWhile_dropWhile_id)
    with assms show ?thesis by (metis hd_append2)
  qed
  with h l show ?thesis by simp
qed

subsection \<open>Search\<close>

text \<open>
  The loop over the tags is one filter: a profile stays when every tag occurs in its
  skills. Every stage returns some of the profiles it was given.
\<close>

lemma filter_tags_eq:
  "filter_tags tags users = filter (\<lambda>p. list_all (\<lambda>tag. icontains (skills p) tag) tags) users"
  by (induction tags arbitrary: users) simp_all

lemma set_sort_by_distance [simp]: "set (sort_by_distance gc origin users) = set users"
  by (simp add: sort_by_distance_def)

lemma set_search_by_distance: "set (search_by_distance gc origin rng users) \<subseteq> set users"
  by (auto simp: search_by_distance_def split: option.splits)

lemma set_location_stage: "set (location_stage gc loc rng users) \<subseteq> set users"
  using set_search_by_distance by (auto simp: location_stage_def split: option.splits)

lemma set_name_stage: "set (name_stage nm users) \<subseteq> set users"
  by (auto simp: name_stage_def)

lemma set_position_stage: "set (position_stage pos users) \<subseteq> set users"
  by (auto simp: position_stage_def)

lemma set_skills_stage: "set (skills_stage sk users) \<subseteq> set users"
  by (auto simp: skills_stage_def filter_tags_eq)

lemma set_search_users: "set (search_users gc uid cd profiles) \<subseteq> set (exclude_user uid profiles)"
  unfolding search_users_def
  using set_location_stage set_name_stage set_position_stage set_skills_stage
  by (meson subset_trans)

lemma search_Searched:
  "search clean gc profiles request = Searched cd res \<longleftrightarrow>
     GET request \<noteq> [] \<and> clean (GET request) = Some cd \<and>
     res = search_users gc (request_user_id request) cd profiles"
  by (auto simp: search_def split: option.splits)

text \<open>
  Sorting by the key (distance, identity) ranks profiles that all have a location.
\<close>

lemma sorted_sort_by_distance:
  assumes "\<forall>p \<in> set users. location p \<noteq> None"
  shows "sorted_wrt (ranked_before gc origin) (sort_by_distance gc origin users)"
proof -
  let ?key = "\<lambda>p. (distance_to gc origin p, user_id p)"
  let ?res = "sort_by_distance gc origin users"
  have "sorted (map ?key ?res)"
    unfolding sort_by_distance_def by (rule sorted_sort_key)
  then have s: "sorted_wrt (\<lambda>a b. ?key a \<le> ?key b) ?res"
    by (simp add: sorted_map)
  have "ranked_before gc origin a b"
    if "a \<in> set ?res" "b \<in> set ?res" "?key a \<le> ?key b" for a b
  proof -
    from that(1,2) assms have "location a \<noteq> None" "location b \<noteq> None"
      by simp_all
    then obtain la lb where "location a = Some la" "location b = Some lb"
      by blast
    with that(3) show ?thesis
      by (auto simp: ranked_before_def distance_to_def less_eq_prod_def)
  qed
  then show ?thesis
    by (rule sorted_wrt_mono_rel [OF _ s])
qed

lemmas scenario_defs = profile_A_def profile_B_def profile_C_def profile_D_def blank_query_def
  request_by_def grid_distance_def

lemmas search_defs = search_def search_users_def location_stage_def name_stage_def position_stage_def
  skills_stage_def exclude_user_def search_by_distance_def sort_by_distance_def within_radius_def
  distance_to_def

text \<open>
  Claim C1. When a search is made with both an origin and a radius, every profile in
  the result has a location whose distance to the origin is at most the radius, the
  result is sorted by ascending distance with ties in ascending order of identity, and
  no profile without a location is in the result.
\<close>

theorem search_distance_ranked:
  assumes "search clean gc profiles request = Searched cd res"
    and "cd_location cd = Some origin" and "cd_location_range cd = Some radius"
  shows "(\<forall>p \<in> set res. \<exists>l. location p = Some l \<and> gc origin l \<le> radius)
       \<and> sorted_wrt (ranked_before gc origin) res
       \<and> (\<forall>p \<in> set profiles. location p = None \<longrightarrow> p \<notin> set res)"
proof -
  from assms(1) have res: "res = search_users gc (request_user_id request) cd profiles"
    by (auto simp: search_def split: if_splits option.splits)
  define before where "before = name_stage (cd_name cd)
         (position_stage (cd_position cd)
           (skills_stage (cd_skills cd)
             (exclude_user (request_user_id request) profiles)))"
  have res': "res = sort_by_distance gc origin (filter (within_radius gc origin radius) before)"
    using assms(2,3) by (simp add: res search_users_def location_stage_def search_by_distance_def before_def)
  have within: "\<forall>p \<in> set res. within_radius gc origin radius p"
    by (simp add: res')
  then have a: "\<forall>p \<in> set res. \<exists>l. location p = Some l \<and> gc origin l \<le> radius"
    by (auto simp: within_radius_def split: option.splits)
  have "\<forall>p \<in> set (filter (within_radius gc origin radius) before). location p \<noteq> None"
    by (auto simp: within_radius_def split: option.splits)
  then have b: "sorted_wrt (ranked_before gc origin) res"
    unfolding res' by (rule sorted_sort_by_distance)
  from a have c: "\<forall>p \<in> set profiles. location p = None \<longrightarrow> p \<notin> set res"
    by auto
  from a b c show ?thesis by blast
qed

theorem search_distance_ranked_witness:
  "search (\<lambda>_. Some (blank_query\<lparr>cd_location := Some (0, 0), cd_location_range := Some 5\<rparr>))
      grid_distance [profile_D, profile_C, profile_B, profile_A] (request_by 3)
     = Searched (blank_query\<lparr>cd_location := Some (0, 0), cd_location_range := Some 5\<rparr>)
         [profile_A, profile_B]
   \<and> sorted_wrt (ranked_before grid_distance (0, 0)) [profile_A, profile_B]
   \<and> location profile_D = None \<and> profile_D \<notin> set [profile_A, profile_B]"
proof -
  let ?cd = "blank_query\<lparr>cd_location := Some (0, 0), cd_location_range := Some 5\<rparr>"
  have s: "search (\<lambda>_. Some ?cd) grid_distance [profile_D, profile_C, profile_B, profile_A]
      (request_by 3) = Searched ?cd [profile_A, profile_B]"
    by (simp add: search_defs scenario_defs)
  have l: "cd_location ?cd = Some (0, 0)" and r: "cd_location_range ?cd = Some 5"
    by (simp_all add: blank_query_def)
  from search_distance_ranked[OF s l r] s show ?thesis
    by (simp add: profile_D_def profile_A_def profile_B_def)
qed



text \<open>
  The stages of the view, in its order, select the profiles that pass the three tests
  of the spec; so the two orders give the same sequence.
\<close>

lemma stages_as_filter:
  "name_stage (cd_name cd) (position_stage (cd_position cd) (skills_stage (cd_skills cd) users))
     = filter (\<lambda>p. spec_role_ok cd p \<and> spec_name_ok cd p \<and> spec_skills_ok cd p) users"
  by (auto simp: name_stage_def position_stage_def skills_stage_def filter_tags_eq
      spec_role_ok_def spec_name_ok_def spec_skills_ok_def intro: filter_cong)

lemma search_spec_order_eq:
  "search_spec_order gc uid cd profiles = search_users gc uid cd profiles"
proof -
  have p: "spec_passes gc cd = (\<lambda>p. (spec_role_ok cd p \<and> spec_name_ok cd p \<and> spec_skills_ok cd p)
              \<and> spec_distance_ok gc cd p)"
    by (rule ext) (simp add: spec_passes_def)
  show ?thesis
    unfolding search_spec_order_def search_users_def stages_as_filter p
    by (simp add: spec_rank_def location_stage_def search_by_distance_def spec_distance_ok_def
        split: option.splits)
qed

text \<open>
  Claim C5. For every directory and every query, the stages applied in the spec's order
  (role, name, skills, distance) give the same set of profiles as the order of the view
  (skills, role, name, distance).
\<close>

theorem filter_order_irrelevant:
  "set (search_spec_order gc uid cd profiles) = set (search_users gc uid cd profiles)"
  by (simp add: search_spec_order_eq)

theorem filter_order_irrelevant_witness:
  "set (search_spec_order grid_distance (Some 3)
          (blank_query\<lparr>cd_position := ''dev'', cd_location := Some (0, 0), cd_location_range := Some 5\<rparr>)
          [profile_D, profile_C, profile_B, profile_A])
   = set (search_users grid_distance (Some 3)
          (blank_query\<lparr>cd_position := ''dev'', cd_location := Some (0, 0), cd_location_range := Some 5\<rparr>)
          [profile_D, profile_C, profile_B, profile_A])
   \<and> search_users grid_distance (Some 3)
          (blank_query\<lparr>cd_position := ''dev'', cd_location := Some (0, 0), cd_location_range := Some 5\<rparr>)
          [profile_D, profile_C, profile_B, profile_A] = [profile_A, profile_B]"
  using filter_order_irrelevant[of grid_distance "Some 3"
      "blank_query\<lparr>cd_position := ''dev'', cd_location := Some (0, 0), cd_location_range := Some 5\<rparr>"
      "[profile_D, profile_C, profile_B, profile_A]"]
  by (simp add: search_defs scenario_defs)

text \<open>
  Claim C6. The profile of the requester is never among the results of a search.
\<close>

theorem requester_excluded:
  assumes "search clean gc profiles request = Searched cd res"
  shows "\<forall>p \<in> set res. Some (user_id p) \<noteq> request_user_id request"
proof -
  from assms have "set res \<subseteq> set (exclude_user (request_user_id request) profiles)"
    by (simp add: search_Searched set_search_users)
  then show ?thesis
    by (auto simp: exclude_user_def)
qed

theorem requester_excluded_witness:
  "search (\<lambda>_. Some blank_query) grid_distance [profile_A, profile_B, profile_C] (request_by 2)
     = Searched blank_query [profile_A, profile_C]
   \<and> Some (user_id profile_A) \<noteq> request_user_id (request_by 2)
   \<and> Some (user_id profile_C) \<noteq> request_user_id (request_by 2)"
proof -
  have s: "search (\<lambda>_. Some blank_query) grid_distance [profile_A, profile_B, profile_C] (request_by 2)
     = Searched blank_query [profile_A, profile_C]"
    by (simp add: search_defs scenario_defs)
  from requester_excluded[OF s] s show ?thesis
    by simp
qed

text \<open>
  The empty tag occurs in every text, so a skills field of nothing but commas and white
  space filters nothing out either.
\<close>

lemma icontains_empty: "icontains hay []"
  by (simp add: icontains_def lower_def)

lemma blank_tags_disable_stage:
  assumes "list_all (\<lambda>tag. tag = []) (map strip (split_comma sk))"
  shows "skills_stage sk users = users"
proof -
  from assms have every: "list_all (\<lambda>tag. icontains (skills p) tag) (map strip (split_comma sk))" for p
    by (auto simp: list_all_iff icontains_empty)
  have "filter (\<lambda>p. list_all (\<lambda>tag. icontains (skills p) tag) (map strip (split_comma sk))) users
      = users"
    by (rule filter_True) (blast intro: every)
  then show ?thesis
    by (simp add: skills_stage_def filter_tags_eq)
qed

text \<open>
  Claim C7. A query with an empty skills field gives the same sequence as the search
  without the skill stage: the empty field switches the stage off.
\<close>

theorem empty_skills_disables_stage:
  assumes "cd_skills cd = []"
  shows "search_users gc uid cd profiles =
     location_stage gc (cd_location cd) (cd_location_range cd)
       (name_stage (cd_name cd) (position_stage (cd_position cd) (exclude_user uid profiles)))"
  using assms by (simp add: search_users_def skills_stage_def)

theorem empty_skills_disables_stage_witness:
  "cd_skills (blank_query\<lparr>cd_position := ''dev''\<rparr>) = []
   \<and> search_users grid_distance (Some 1) (blank_query\<lparr>cd_position := ''dev''\<rparr>)
        [profile_A, profile_B, profile_C, profile_D] = [profile_B]"
proof -
  let ?cd = "blank_query\<lparr>cd_position := ''dev''\<rparr>"
  have h: "cd_skills ?cd = []" by (simp add: blank_query_def)
  have e: "location_stage grid_distance (cd_location ?cd) (cd_location_range ?cd)
       (name_stage (cd_name ?cd) (position_stage (cd_position ?cd)
          (exclude_user (Some 1) [profile_A, profile_B, profile_C, profile_D]))) = [profile_B]"
    by (simp add: search_defs scenario_defs)
  from empty_skills_disables_stage[OF h, of grid_distance "Some 1" "[profile_A, profile_B, profile_C, profile_D]"] e h
  show ?thesis by simp
qed

text \<open>
  A request without any query parameter, or one whose form does not validate, is not
  searched at all: the context holds neither the flag nor results.
\<close>

lemma search_not_submitted:
  "GET request = [] \<or> clean (GET request) = None \<Longrightarrow>
     search clean gc profiles request = Unsearched"
  by (auto simp: search_def)



subsection \<open>Quota\<close>

text \<open>
  Pruning at a later time undoes nothing that pruning at an earlier time kept for it,
  and a window that ends at or after \<open>t\<close> lies inside what pruning at \<open>t\<close> keeps.
\<close>

lemma prune_prune: "now \<le> now' \<Longrightarrow> prune cfg now' (prune cfg now ts) = prune cfg now' ts"
  by (auto simp: prune_def intro: filter_cong)





lemma sendTimestamps_upd:
  "sendTimestamps (q(i \<mapsto> ts)) j = (if j = i then ts else sendTimestamps q j)"
  by (simp add: sendTimestamps_def)







lemmas quota_defs = canSend_def recordSend_def prune_def sendTimestamps_def in_window_def

text \<open>
  Without the discipline the bound is lost: two checks answered before either send is
  recorded let two sends into a window that admits one.
\<close>

lemma unpaired_history_exceeds:
  "\<not> paired \<lparr>windowDuration = 60, maxSendsPerWindow = 1\<rparr> Map.empty (\<lambda>_. False)
       [CanSend 7 0, CanSend 7 0, RecordSend 7 0, RecordSend 7 0]
   \<and> in_window \<lparr>windowDuration = 60, maxSendsPerWindow = 1\<rparr> 0
       (recorded 7 [CanSend 7 0, CanSend 7 0, RecordSend 7 0, RecordSend 7 0]) = 2"
  by (simp add: quota_defs)



text \<open>
  Claim C3. With three sends per window of 60 seconds and an empty state,
  \<open>tryRecordSend\<close> at 0, 10 and 20 answers \<open>Allowed\<close>, at 30 \<open>Throttled\<close>, and at 61
  \<open>Allowed\<close> again, the instant 0 having left the window.
\<close>

theorem tryRecordSend_scenario:
  "tryRecordSend_all \<lparr>windowDuration = 60, maxSendsPerWindow = 3\<rparr> Map.empty i [0, 10, 20, 30, 61]
     = [Allowed, Allowed, Allowed, Throttled, Allowed]"
  by (simp add: tryRecordSend_def canSend_def recordSend_def prune_def sendTimestamps_def)

text \<open>
  Claim C9. \<open>canSend\<close> records nothing: it leaves the identity's sequence pruned and
  every other sequence as it was. Calling it again at the same time gives the same
  answer and state, and the answer of any later \<open>canSend\<close> is the same whether or not
  the call was made.
\<close>

theorem canSend_pure_query:
  assumes "now \<le> now'"
  shows "sendTimestamps (snd (canSend cfg q i now)) j
           = (if j = i then prune cfg now (sendTimestamps q i) else sendTimestamps q j)
       \<and> canSend cfg (snd (canSend cfg q i now)) i now = canSend cfg q i now
       \<and> fst (canSend cfg (snd (canSend cfg q i now)) j now') = fst (canSend cfg q j now')"
  using assms
  by (simp add: canSend_def Let_def sendTimestamps_upd prune_prune)

theorem canSend_pure_query_witness:
  "(10::int) \<le> 66
   \<and> fst (canSend \<lparr>windowDuration = 60, maxSendsPerWindow = 2\<rparr> [7 \<mapsto> [0, 5, 9]] 7 10) = Throttled
   \<and> sendTimestamps (snd (canSend \<lparr>windowDuration = 60, maxSendsPerWindow = 2\<rparr> [7 \<mapsto> [0, 5, 9]] 7 10)) 7
       = [0, 5, 9]
   \<and> fst (canSend \<lparr>windowDuration = 60, maxSendsPerWindow = 2\<rparr>
        (snd (canSend \<lparr>windowDuration = 60, maxSendsPerWindow = 2\<rparr> [7 \<mapsto> [0, 5, 9]] 7 10)) 7 66)
       = Allowed
   \<and> fst (canSend \<lparr>windowDuration = 60, maxSendsPerWindow = 2\<rparr> [7 \<mapsto> [0, 5, 9]] 7 66) = Allowed"
proof -
  have h: "(10::int) \<le> 66" by simp
  from canSend_pure_query[OF h, of "\<lparr>windowDuration = 60, maxSendsPerWindow = 2\<rparr>" "[7 \<mapsto> [0, 5, 9]]" 7 7]
  show ?thesis
    by (simp add: quota_defs)
qed

subsection \<open>Contact\<close>

text \<open>
  A valid post by a sender with an address, all of whose clock readings agree, does to
  the quota what \<open>tryRecordSend\<close> does, and delivers one mail exactly when the answer
  is \<open>Allowed\<close>: the first check of line 150 changes nothing that the second sees.
\<close>

lemma canSend_idem:
  "canSend cfg (snd (canSend cfg q i now)) i now = canSend cfg q i now"
  by (simp add: canSend_def Let_def sendTimestamps_upd prune_prune)

lemma contact_is_tryRecordSend:
  assumes "request_user request = Some me" and "email me \<noteq> []"
    and "find (\<lambda>u. username u = uname) users = Some to_user"
    and "request_method request \<noteq> ''GET''"
    and "form (request_POST request) = Some (subj, bod)"
    and "now_warn request = now" and "now_check request = now" and "now_record request = now"
  shows "quota (fst (contact cfg form render users w request uname))
           = snd (tryRecordSend cfg (quota w) (u_id me) now)
       \<and> length (outbox (fst (contact cfg form render users w request uname)))
           = length (outbox w) + (if fst (tryRecordSend cfg (quota w) (u_id me) now) = Allowed then 1 else 0)"
proof -
  obtain a q1 where c: "canSend cfg (quota w) (u_id me) now = (a, q1)"
    by (cases "canSend cfg (quota w) (u_id me) now")
  with canSend_idem[of cfg "quota w" "u_id me" now]
  have c2: "canSend cfg q1 (u_id me) now = (a, q1)"
    by simp
  show ?thesis
    using assms c c2
    by (cases a) (simp_all add: contact_def tryRecordSend_def Let_def)
qed

text \<open>
  Claim C10. A sender with no email address is turned away before the quota is asked:
  the quota state, the delivered mails and the fired signals are as before, and the
  response is the redirect to the profile editor (or the 404 of an unknown recipient).
\<close>

theorem contact_without_email:
  assumes "request_user request = Some me" and "email me = []"
  shows "quota (fst (contact cfg form render users w request uname)) = quota w
       \<and> outbox (fst (contact cfg form render users w request uname)) = outbox w
       \<and> events (fst (contact cfg form render users w request uname)) = events w
       \<and> (snd (contact cfg form render users w request uname) = Http404
          \<or> snd (contact cfg form render users w request uname) = Redirect ''edit_profile'' [])"
  using assms by (simp add: contact_def split: option.splits)

theorem contact_without_email_witness:
  "request_user (post_request (sender [])) = Some (sender []) \<and> email (sender []) = []
   \<and> contact \<lparr>windowDuration = 60, maxSendsPerWindow = 3\<rparr> (\<lambda>_. Some (''hi'', ''hello''))
        (\<lambda>tpl a b subj bod. subj) [sender ''a@b.c'']
        \<lparr>quota = Map.empty, outbox = [], events = [], flash = []\<rparr> (post_request (sender [])) ''ada''
     = (\<lparr>quota = Map.empty, outbox = [], events = [],
          flash = [(Warning, ''You must set a valid email address prior to emailing other users.'')]\<rparr>,
        Redirect ''edit_profile'' [])"
proof -
  have a: "request_user (post_request (sender [])) = Some (sender [])"
    by (simp add: post_request_def)
  have b: "email (sender []) = []"
    by (simp add: sender_def)
  from contact_without_email[OF a b, of "\<lparr>windowDuration = 60, maxSendsPerWindow = 3\<rparr>"
      "\<lambda>_. Some (''hi'', ''hello'')" "\<lambda>tpl a b subj bod. subj" "[sender ''a@b.c'']"
      "\<lparr>quota = Map.empty, outbox = [], events = [], flash = []\<rparr>" "''ada''"] a b
  show ?thesis
    by (simp add: contact_def post_request_def sender_def)
qed

end
